theory Spec2Isabelle
  imports Complex_Main
begin

section \<open>Python values used by mesh\_utils.py\<close>

text \<open>
  A Python float is a finite value or one of the three special values. Finite values are
  rationals; every arithmetic operation on finite values rounds its exact result with the
  rounding function of the platform, which the operations take as their first argument
  (the identity gives exact arithmetic). The rounding is to the nearest float of unbounded
  exponent range; a quotient whose rounded value lies beyond the largest finite float
  overflows to an infinity. Overflow of a difference or of a product is not modelled: the
  operands of the script keep them in range. The sign of zero is not modelled: every zero
  is the positive zero.
\<close>

datatype pyfloat = Fin rat | PInf | NInf | NaN

text \<open>\<^verbatim>\<open>a <= b\<close> and \<^verbatim>\<open>a < b\<close> on floats: every comparison with NaN is false.\<close>

fun fl_le :: "pyfloat \<Rightarrow> pyfloat \<Rightarrow> bool" where
  "fl_le NaN b = False"
| "fl_le a NaN = False"
| "fl_le NInf b = True"
| "fl_le a PInf = True"
| "fl_le PInf b = False"
| "fl_le a NInf = False"
| "fl_le (Fin x) (Fin y) = (x \<le> y)"

fun fl_lt :: "pyfloat \<Rightarrow> pyfloat \<Rightarrow> bool" where
  "fl_lt NaN b = False"
| "fl_lt a NaN = False"
| "fl_lt PInf b = False"
| "fl_lt a NInf = False"
| "fl_lt NInf b = True"
| "fl_lt a PInf = True"
| "fl_lt (Fin x) (Fin y) = (x < y)"

text \<open>Truthiness of a float (\<^verbatim>\<open>if x\<close>, \<^verbatim>\<open>not x\<close>): only zero is false, NaN is true.\<close>

fun fl_truthy :: "pyfloat \<Rightarrow> bool" where
  "fl_truthy (Fin x) = (x \<noteq> 0)"
| "fl_truthy a = True"

fun fl_sgn :: "pyfloat \<Rightarrow> rat" where
  "fl_sgn (Fin x) = sgn x"
| "fl_sgn PInf = 1"
| "fl_sgn NInf = - 1"
| "fl_sgn NaN = 0"

fun fl_sub :: "(rat \<Rightarrow> rat) \<Rightarrow> pyfloat \<Rightarrow> pyfloat \<Rightarrow> pyfloat" where
  "fl_sub rnd NaN b = NaN"
| "fl_sub rnd a NaN = NaN"
| "fl_sub rnd (Fin x) (Fin y) = Fin (rnd (x - y))"
| "fl_sub rnd PInf PInf = NaN"
| "fl_sub rnd NInf NInf = NaN"
| "fl_sub rnd PInf b = PInf"
| "fl_sub rnd NInf b = NInf"
| "fl_sub rnd a PInf = NInf"
| "fl_sub rnd a NInf = PInf"

fun fl_mul :: "(rat \<Rightarrow> rat) \<Rightarrow> pyfloat \<Rightarrow> pyfloat \<Rightarrow> pyfloat" where
  "fl_mul rnd NaN b = NaN"
| "fl_mul rnd a NaN = NaN"
| "fl_mul rnd (Fin x) (Fin y) = Fin (rnd (x * y))"
| "fl_mul rnd a b =
     (if fl_sgn a * fl_sgn b = 0 then NaN
      else if 0 < fl_sgn a * fl_sgn b then PInf else NInf)"

text \<open>The largest finite binary64 value, and the overflow of a rounded result beyond it.\<close>

definition fl_max :: rat where
  "fl_max = (2 - 1 / 2 ^ 52) * 2 ^ 1023"

definition fl_overflow :: "rat \<Rightarrow> pyfloat" where
  "fl_overflow r = (if fl_max < r then PInf else if r < - fl_max then NInf else Fin r)"

text \<open>
  Division as NumPy does it for \<^verbatim>\<open>float / numpy.float64\<close>: a zero divisor gives an
  infinity or NaN, not an exception. An infinity divided by a finite value keeps its sign
  unless the divisor is negative; a finite value divided by an infinity is zero; an
  infinity divided by an infinity is NaN.
\<close>

fun fl_div :: "(rat \<Rightarrow> rat) \<Rightarrow> pyfloat \<Rightarrow> pyfloat \<Rightarrow> pyfloat" where
  "fl_div rnd NaN b = NaN"
| "fl_div rnd a NaN = NaN"
| "fl_div rnd (Fin x) (Fin y) =
     (if y = 0 then (if x = 0 then NaN else if 0 < x then PInf else NInf)
      else fl_overflow (rnd (x / y)))"
| "fl_div rnd (Fin x) b = Fin 0"
| "fl_div rnd PInf (Fin y) = (if y < 0 then NInf else PInf)"
| "fl_div rnd NInf (Fin y) = (if y < 0 then PInf else NInf)"
| "fl_div rnd a b = NaN"

text \<open>An int operand of a mixed int/float operation is converted to float first.\<close>

definition fl_of_int :: "(rat \<Rightarrow> rat) \<Rightarrow> int \<Rightarrow> pyfloat" where
  "fl_of_int rnd n = Fin (rnd (of_int n))"

text \<open>Python exceptions: \<^verbatim>\<open>except Exception\<close> catches the subclasses of Exception only;
  SystemExit and KeyboardInterrupt derive from BaseException directly.\<close>

datatype exception_class =
  ValueError | FileNotFoundError | ZeroDivisionError | OverflowError | NameError | LibraryError

datatype exn = Exception exception_class string | SystemExit int | KeyboardInterrupt

datatype pyval = PyNone | PyInt int

datatype outcome = Return pyval | Raise exn

text \<open>\<^verbatim>\<open>int(x)\<close> on a float truncates towards zero and raises on the special values.\<close>

definition py_truncate :: "rat \<Rightarrow> int" where
  "py_truncate x = (if 0 \<le> x then \<lfloor>x\<rfloor> else \<lceil>x\<rceil>)"

fun py_int :: "pyfloat \<Rightarrow> exn + int" where
  "py_int (Fin x) = Inr (py_truncate x)"
| "py_int NaN = Inl (Exception ValueError ''cannot convert float NaN to integer'')"
| "py_int a = Inl (Exception OverflowError ''cannot convert float infinity to integer'')"

text \<open>\<^verbatim>\<open>a / b\<close> on two ints: true division, ZeroDivisionError on a zero divisor.\<close>

definition py_truediv :: "(rat \<Rightarrow> rat) \<Rightarrow> int \<Rightarrow> int \<Rightarrow> exn + pyfloat" where
  "py_truediv rnd a b =
     (if b = 0 then Inl (Exception ZeroDivisionError ''division by zero'')
      else Inr (Fin (rnd (of_int a / of_int b))))"

text \<open>Truthiness of the optional command-line values: None, 0 and 0.0 are false.\<close>

fun truthy_int :: "int option \<Rightarrow> bool" where
  "truthy_int None = False"
| "truthy_int (Some n) = (n \<noteq> 0)"

fun truthy_float :: "pyfloat option \<Rightarrow> bool" where
  "truthy_float None = False"
| "truthy_float (Some x) = fl_truthy x"

text \<open>\<^verbatim>\<open>os.path.basename\<close>: what follows the last slash.\<close>

definition basename :: "string \<Rightarrow> string" where
  "basename p = rev (takeWhile (\<lambda>c. c \<noteq> CHR ''/'') (rev p))"

text \<open>\<^verbatim>\<open>extents.min()\<close> of the three box extents; NumPy's min propagates NaN.\<close>

definition fl_min :: "pyfloat \<Rightarrow> pyfloat \<Rightarrow> pyfloat" where
  "fl_min a b = (if a = NaN \<or> b = NaN then NaN else if fl_le a b then a else b)"

fun extents_min :: "pyfloat \<times> pyfloat \<times> pyfloat \<Rightarrow> pyfloat" where
  "extents_min (a, b, c) = fl_min (fl_min a b) c"

section \<open>The outside world: libraries, console, call trace\<close>

text \<open>The keyword arguments of
  \<^verbatim>\<open>ms.meshing_decimation_quadric_edge_collapse_with_texture\<close>.\<close>

record decimation_args =
  targetfacenum :: "int option"
  qualitythr :: pyfloat
  extratcoordw :: pyfloat
  preserveboundary :: bool
  boundaryweight :: pyfloat
  optimalplacement :: bool
  planarquadric :: bool
  preservenormal :: bool

text \<open>
  The behaviour of everything the script calls but does not implement: the float unit,
  the file system, pymeshlab (meshes of type \<open>'m\<close>) and trimesh (meshes of type \<open>'t\<close>).
  Each library call that can fail returns its exception as a value.
  \<^item> \<open>fl_round\<close>: the rounding of an exact result to a float;
  \<^item> \<open>os_path_exists\<close>: \<^verbatim>\<open>os.path.exists\<close>;
  \<^item> \<open>ml_load_new_mesh\<close>: \<^verbatim>\<open>ms.load_new_mesh(path)\<close>, then \<^verbatim>\<open>ms.current_mesh()\<close>;
  \<^item> \<open>ml_face_number\<close>: \<^verbatim>\<open>face_number()\<close> of a mesh;
  \<^item> \<open>ml_decimation\<close>: the decimation filter, with the mesh it leaves current;
  \<^item> \<open>ml_save_current_mesh\<close>: \<^verbatim>\<open>ms.save_current_mesh(path, save_textures)\<close>;
  \<^item> \<open>tm_load\<close>: \<^verbatim>\<open>trimesh.load\<close>;
  \<^item> \<open>tm_extents\<close>: \<^verbatim>\<open>mesh.bounding_box.primitive.extents\<close>, the three extents of
    the box that the source calls the OBB;
  \<^item> \<open>tm_len_vertices\<close>, \<open>tm_len_faces\<close>: \<^verbatim>\<open>len(mesh.vertices)\<close>,
    \<^verbatim>\<open>len(mesh.faces)\<close>;
  \<^item> \<open>tm_apply_scale\<close>: \<^verbatim>\<open>mesh.apply_scale(scale)\<close>, with the mesh as it is afterwards;
  \<^item> \<open>tm_show\<close>: the scene of \<^verbatim>\<open>display_mesh\<close>, built and shown;
  \<^item> \<open>tm_export\<close>: \<^verbatim>\<open>mesh.export(path)\<close>.
\<close>

record ('m, 't) env =
  fl_round :: "rat \<Rightarrow> rat"
  os_path_exists :: "string \<Rightarrow> bool"
  ml_load_new_mesh :: "string \<Rightarrow> exn + 'm"
  ml_face_number :: "'m \<Rightarrow> nat"
  ml_decimation :: "decimation_args \<Rightarrow> 'm \<Rightarrow> exn + 'm"
  ml_save_current_mesh :: "string \<Rightarrow> bool \<Rightarrow> 'm \<Rightarrow> exn option"
  tm_load :: "string \<Rightarrow> exn + 't"
  tm_extents :: "'t \<Rightarrow> pyfloat \<times> pyfloat \<times> pyfloat"
  tm_len_vertices :: "'t \<Rightarrow> nat"
  tm_len_faces :: "'t \<Rightarrow> nat"
  tm_apply_scale :: "pyfloat \<Rightarrow> 't \<Rightarrow> exn + 't"
  tm_show :: "'t \<Rightarrow> bool \<Rightarrow> exn option"
  tm_export :: "string \<Rightarrow> 't \<Rightarrow> exn option"

text \<open>What is printed, one constructor per \<^verbatim>\<open>print\<close> template of the source (number
  formatting is not modelled), and the library calls made, in order.\<close>

datatype message =
    MsgLoading string
  | MsgTargetFromRatio pyfloat int
  | MsgStartDecimation "int option" pyfloat
  | MsgSaving string
  | MsgDone nat nat pyfloat
  | MsgFailed string
  | MsgError string
  | MsgTraceback exn
  | MsgParserError string
  | MsgText string
  | MsgVertices nat
  | MsgFaces nat
  | MsgExtents "pyfloat \<times> pyfloat \<times> pyfloat"

datatype 't call =
    MeshSet_new
  | Load_new_mesh string
  | Decimation decimation_args
  | Save_current_mesh string bool
  | Trimesh_load string
  | Apply_scale pyfloat
  | Scene_show bool
  | Export string 't

record 't world =
  console :: "message list"
  calls :: "'t call list"

definition print :: "message \<Rightarrow> 't world \<Rightarrow> 't world" where
  "print m w = w\<lparr>console := console w @ [m]\<rparr>"

definition print_if :: "bool \<Rightarrow> message \<Rightarrow> 't world \<Rightarrow> 't world" where
  "print_if b m w = (if b then print m w else w)"

definition call :: "'t call \<Rightarrow> 't world \<Rightarrow> 't world" where
  "call c w = w\<lparr>calls := calls w @ [c]\<rparr>"

section \<open>simplify\_textured\_mesh\<close>

record simplify_args =
  input_path :: string
  output_path :: string
  target_faces :: "int option"
  reduction_ratio :: "pyfloat option"
  texture_weight :: pyfloat
  preserve_boundary :: bool
  boundary_weight :: pyfloat
  quality_threshold :: pyfloat
  planar :: bool
  optimal_placement :: bool
  verbose :: bool

text \<open>Lines 72-79, the three argument checks in their order.\<close>

definition validate_arguments :: "int option \<Rightarrow> pyfloat option \<Rightarrow> exn + unit" where
  "validate_arguments tf rr =
     (if tf = None \<and> rr = None then
        Inl (Exception ValueError ''You must specify either target_faces or reduction_ratio'')
      else if tf \<noteq> None \<and> rr \<noteq> None then
        Inl (Exception ValueError ''target_faces and reduction_ratio are mutually exclusive'')
      else
        (case rr of
           Some r \<Rightarrow>
             if \<not> (fl_le (Fin 0) r \<and> fl_lt r (Fin 1)) then
               Inl (Exception ValueError ''reduction_ratio must be within [0, 1)'')
             else Inr ()
         | None \<Rightarrow> Inr ()))"

text \<open>Lines 96-99: the face count asked of the engine.\<close>

definition compute_target_faces ::
  "(rat \<Rightarrow> rat) \<Rightarrow> int option \<Rightarrow> pyfloat option \<Rightarrow> nat \<Rightarrow> exn + int option" where
  "compute_target_faces rnd tf rr input_faces =
     (case rr of
        Some r \<Rightarrow>
          (case py_int (fl_mul rnd (fl_of_int rnd (int input_faces)) (fl_sub rnd (Fin 1) r)) of
             Inl e \<Rightarrow> Inl e
           | Inr calculated_target_faces \<Rightarrow> Inr (Some (max calculated_target_faces 4)))
      | None \<Rightarrow> Inr tf)"

text \<open>Lines 107-116: the keyword arguments of the decimation call.\<close>

definition decimation_call_args :: "simplify_args \<Rightarrow> int option \<Rightarrow> decimation_args" where
  "decimation_call_args a tf =
     \<lparr>targetfacenum = tf,
      qualitythr = quality_threshold a,
      extratcoordw = texture_weight a,
      preserveboundary = preserve_boundary a,
      boundaryweight = boundary_weight a,
      optimalplacement = optimal_placement a,
      planarquadric = planar a,
      preservenormal = True\<rparr>"

text \<open>Lines 103-129, from the decimation to the final report, on the loaded mesh.\<close>

definition decimate_and_save ::
  "('m, 't) env \<Rightarrow> simplify_args \<Rightarrow> 'm \<Rightarrow> int option \<Rightarrow> 't world \<Rightarrow> outcome \<times> 't world" where
  "decimate_and_save env a input_mesh tf w =
     (let input_faces = ml_face_number env input_mesh;
          w1 = print_if (verbose a) (MsgStartDecimation tf (texture_weight a)) w;
          w2 = call (Decimation (decimation_call_args a tf)) w1
      in case ml_decimation env (decimation_call_args a tf) input_mesh of
           Inl e \<Rightarrow> (Raise e, w2)
         | Inr output_mesh \<Rightarrow>
             (let output_faces = ml_face_number env output_mesh
              in case py_truediv (fl_round env) (int output_faces) (int input_faces) of
                   Inl e \<Rightarrow> (Raise e, w2)
                 | Inr q \<Rightarrow>
                     (let ratio = fl_sub (fl_round env) (Fin 1) q;
                          w3 = print_if (verbose a) (MsgSaving (output_path a)) w2;
                          w4 = call (Save_current_mesh (output_path a) True) w3
                      in case ml_save_current_mesh env (output_path a) True output_mesh of
                           Some e \<Rightarrow> (Raise e, w4)
                         | None \<Rightarrow>
                             (Return PyNone,
                              print_if (verbose a)
                                (MsgDone input_faces output_faces ratio) w4))))"

text \<open>Lines 71-129: the body of the \<^verbatim>\<open>try\<close>.\<close>

definition simplify_body ::
  "('m, 't) env \<Rightarrow> simplify_args \<Rightarrow> 't world \<Rightarrow> outcome \<times> 't world" where
  "simplify_body env a w =
     (case validate_arguments (target_faces a) (reduction_ratio a) of
        Inl e \<Rightarrow> (Raise e, w)
      | Inr u \<Rightarrow>
          if \<not> os_path_exists env (input_path a) then
            (Raise (Exception FileNotFoundError
                      (''Input file '' @ input_path a @ '' not found'')), w)
          else
            (let w1 = call MeshSet_new w;
                 w2 = print_if (verbose a) (MsgLoading (basename (input_path a))) w1;
                 w3 = call (Load_new_mesh (input_path a)) w2
             in case ml_load_new_mesh env (input_path a) of
                  Inl e \<Rightarrow> (Raise e, w3)
                | Inr input_mesh \<Rightarrow>
                    (case compute_target_faces (fl_round env) (target_faces a)
                            (reduction_ratio a) (ml_face_number env input_mesh) of
                       Inl e \<Rightarrow> (Raise e, w3)
                     | Inr tf \<Rightarrow>
                         (let w4 = (case reduction_ratio a of
                                      Some r \<Rightarrow>
                                        (case tf of
                                           Some t \<Rightarrow>
                                             print_if (verbose a) (MsgTargetFromRatio r t) w3
                                         | None \<Rightarrow> w3)
                                    | None \<Rightarrow> w3)
                          in decimate_and_save env a input_mesh tf w4))))"

text \<open>Lines 70 and 130-132: the handler prints only when \<^verbatim>\<open>verbose\<close> is set.\<close>

definition simplify_textured_mesh ::
  "('m, 't) env \<Rightarrow> simplify_args \<Rightarrow> 't world \<Rightarrow> outcome \<times> 't world" where
  "simplify_textured_mesh env a w =
     (case simplify_body env a w of
        (Raise (Exception c msg), w') \<Rightarrow> (Return PyNone, print_if (verbose a) (MsgFailed msg) w')
      | (Raise e, w') \<Rightarrow> (Raise e, w')
      | (Return v, w') \<Rightarrow> (Return PyNone, w'))"

section \<open>display\_mesh\<close>

text \<open>Lines 143-156. A path is loaded first; building the scene (mesh, axis helper and,
  with \<^verbatim>\<open>show_bbox\<close>, the red bounding box) and showing it is one library call.\<close>

definition show_scene :: "('m, 't) env \<Rightarrow> 't \<Rightarrow> bool \<Rightarrow> 't world \<Rightarrow> outcome \<times> 't world" where
  "show_scene env mesh show_bbox w =
     (let w1 = call (Scene_show show_bbox) w
      in case tm_show env mesh show_bbox of
           Some e \<Rightarrow> (Raise e, w1)
         | None \<Rightarrow> (Return PyNone, w1))"

definition display_mesh ::
  "('m, 't) env \<Rightarrow> string + 't \<Rightarrow> bool \<Rightarrow> 't world \<Rightarrow> outcome \<times> 't world" where
  "display_mesh env mesh show_bbox w =
     (case mesh of
        Inl path \<Rightarrow>
          (let w1 = call (Trimesh_load path) w
           in case tm_load env path of
                Inl e \<Rightarrow> (Raise e, w1)
              | Inr m \<Rightarrow> show_scene env m show_bbox w1)
      | Inr m \<Rightarrow> show_scene env m show_bbox w)"

section \<open>The command line: dowsample\_mesh and resize\_mesh\<close>

text \<open>The namespace that \<^verbatim>\<open>parser.parse_args()\<close> returns (lines 202-207).\<close>

record args =
  args_input :: string
  args_output :: string
  args_downsample :: bool
  args_size :: "pyfloat option"
  args_target_faces :: "int option"
  args_reduction_ratio :: "pyfloat option"

text \<open>\<^verbatim>\<open>parser.error(msg)\<close> of argparse, on the parser that the script builds at
  lines 201-207 (so only where that parser is bound): writes the usage and the message to
  stderr and exits with status 2.\<close>

definition parser_error :: "string \<Rightarrow> 't world \<Rightarrow> outcome \<times> 't world" where
  "parser_error msg w = (Raise (SystemExit 2), print (MsgParserError msg) w)"

text \<open>Lines 164-167: the call with the defaults of the signature (lines 36-42).\<close>

definition simplify_call_args :: "args \<Rightarrow> simplify_args" where
  "simplify_call_args a =
     \<lparr>input_path = args_input a,
      output_path = args_output a,
      target_faces = args_target_faces a,
      reduction_ratio = args_reduction_ratio a,
      texture_weight = Fin (3 / 2),
      preserve_boundary = True,
      boundary_weight = Fin 1,
      quality_threshold = Fin (3 / 10),
      planar = False,
      optimal_placement = True,
      verbose = True\<rparr>"

text \<open>Lines 164-169: the body of the \<^verbatim>\<open>try\<close>.\<close>

definition dowsample_body :: "('m, 't) env \<Rightarrow> args \<Rightarrow> 't world \<Rightarrow> outcome \<times> 't world" where
  "dowsample_body env a w =
     (case simplify_textured_mesh env (simplify_call_args a) w of
        (Raise e, w1) \<Rightarrow> (Raise e, w1)
      | (Return v, w1) \<Rightarrow> display_mesh env (Inl (args_output a)) True w1)"

text \<open>
  Lines 159-176. The name \<^verbatim>\<open>parser\<close> of line 161 is a global that only the script
  binds (lines 200-201). The first argument says whether it is bound: it is when the file
  runs as a script, and it is not when the function is called from a module that imports
  this one, where line 161 raises NameError before the \<^verbatim>\<open>try\<close> is entered.
\<close>

definition dowsample_mesh_with ::
  "bool \<Rightarrow> ('m, 't) env \<Rightarrow> args \<Rightarrow> 't world \<Rightarrow> outcome \<times> 't world" where
  "dowsample_mesh_with parser_bound env a w =
     (if \<not> truthy_int (args_target_faces a) \<and> \<not> truthy_float (args_reduction_ratio a) then
        (if parser_bound then
           parser_error ''You must specify either --target-faces or --reduction-ratio'' w
         else (Raise (Exception NameError ''name 'parser' is not defined''), w))
      else
        (case dowsample_body env a w of
           (Raise (Exception c msg), w') \<Rightarrow>
             (Return (PyInt 1),
              print (MsgTraceback (Exception c msg)) (print (MsgError msg) w'))
         | (Raise e, w') \<Rightarrow> (Raise e, w')
         | (Return v, w') \<Rightarrow> (Return (PyInt 0), w')))"

text \<open>The function as the script calls it (line 211), with \<^verbatim>\<open>parser\<close> bound.\<close>

definition dowsample_mesh :: "('m, 't) env \<Rightarrow> args \<Rightarrow> 't world \<Rightarrow> outcome \<times> 't world" where
  "dowsample_mesh env a w = dowsample_mesh_with True env a w"

text \<open>Line 190.\<close>

definition resize_scale :: "(rat \<Rightarrow> rat) \<Rightarrow> pyfloat option \<Rightarrow> pyfloat \<Rightarrow> pyfloat" where
  "resize_scale rnd sz model_size =
     (case sz of
        Some s \<Rightarrow> if fl_truthy s then fl_div rnd s model_size else Fin 1
      | None \<Rightarrow> Fin 1)"

definition print_info :: "('m, 't) env \<Rightarrow> string \<Rightarrow> 't \<Rightarrow> 't world \<Rightarrow> 't world" where
  "print_info env title mesh w =
     print (MsgExtents (tm_extents env mesh))
       (print (MsgFaces (tm_len_faces env mesh))
          (print (MsgVertices (tm_len_vertices env mesh))
             (print (MsgText title) w)))"

text \<open>Lines 179-197. There is no \<^verbatim>\<open>try\<close> in this function.\<close>

definition resize_mesh :: "('m, 't) env \<Rightarrow> args \<Rightarrow> 't world \<Rightarrow> outcome \<times> 't world" where
  "resize_mesh env a w =
     (let w1 = call (Trimesh_load (args_input a)) w
      in case tm_load env (args_input a) of
           Inl e \<Rightarrow> (Raise e, w1)
         | Inr mesh \<Rightarrow>
             (let model_size = extents_min (tm_extents env mesh);
                  w2 = print_info env ''original info:'' mesh w1;
                  scale = resize_scale (fl_round env) (args_size a) model_size;
                  w3 = call (Apply_scale scale) w2
              in case tm_apply_scale env scale mesh of
                   Inl e \<Rightarrow> (Raise e, w3)
                 | Inr mesh' \<Rightarrow>
                     (let w4 = print_info env ''resized mesh info:'' mesh' w3
                      in case display_mesh env (Inr mesh') True w4 of
                           (Raise e, w5) \<Rightarrow> (Raise e, w5)
                         | (Return v, w5) \<Rightarrow>
                             (let w6 = call (Export (args_output a) mesh') w5
                              in case tm_export env (args_output a) mesh' of
                                   Some e \<Rightarrow> (Raise e, w6)
                                 | None \<Rightarrow> (Return PyNone, w6)))))"

text \<open>Lines 209-213.\<close>

definition main :: "('m, 't) env \<Rightarrow> args \<Rightarrow> 't world \<Rightarrow> outcome \<times> 't world" where
  "main env a w =
     (if args_downsample a then
        (case dowsample_mesh env a w of
           (Raise e, w') \<Rightarrow> (Raise e, w')
         | (Return v, w') \<Rightarrow> (Return PyNone, w'))
      else resize_mesh env a w)"

section \<open>A concrete environment\<close>

text \<open>
  A small world on which the theorems below are instantiated: exact arithmetic, one
  existing textured mesh \<^verbatim>\<open>in.obj\<close> of 100 faces, a decimation engine that delivers the
  requested face count, and box-shaped trimesh meshes given by their three extents, which
  scaling multiplies by the absolute value of the factor. Files other than
  \<^verbatim>\<open>in.obj\<close> and \<^verbatim>\<open>out.obj\<close> cannot be loaded.
\<close>

definition box_scale :: "pyfloat \<Rightarrow> rat \<times> rat \<times> rat \<Rightarrow> exn + rat \<times> rat \<times> rat" where
  "box_scale s m =
     (case s of
        Fin k \<Rightarrow> (case m of (x, y, z) \<Rightarrow> Inr (\<bar>k\<bar> * x, \<bar>k\<bar> * y, \<bar>k\<bar> * z))
      | _ \<Rightarrow> Inl (Exception ValueError ''scale is not finite''))"

definition example_env :: "(nat, rat \<times> rat \<times> rat) env" where
  "example_env =
     \<lparr>fl_round = (\<lambda>x. x),
      os_path_exists = (\<lambda>p. p = ''in.obj'' \<or> p = ''out.obj''),
      ml_load_new_mesh =
        (\<lambda>p. if p = ''in.obj'' then Inr 100
             else Inl (Exception LibraryError ''cannot load mesh'')),
      ml_face_number = (\<lambda>m. m),
      ml_decimation =
        (\<lambda>d m. case targetfacenum d of
                  Some t \<Rightarrow> Inr (min m (nat t))
                | None \<Rightarrow> Inl (Exception LibraryError ''targetfacenum missing'')),
      ml_save_current_mesh = (\<lambda>p t m. None),
      tm_load =
        (\<lambda>p. if p = ''in.obj'' \<or> p = ''out.obj'' then Inr (1, 2, 3)
             else Inl (Exception LibraryError ''cannot load file'')),
      tm_extents = (\<lambda>m. case m of (x, y, z) \<Rightarrow> (Fin x, Fin y, Fin z)),
      tm_len_vertices = (\<lambda>m. 8),
      tm_len_faces = (\<lambda>m. 12),
      tm_apply_scale = box_scale,
      tm_show = (\<lambda>m b. None),
      tm_export = (\<lambda>p m. None)\<rparr>"

definition world0 :: "(rat \<times> rat \<times> rat) world" where
  "world0 = \<lparr>console = [], calls = []\<rparr>"

definition example_simplify_args :: simplify_args where
  "example_simplify_args =
     \<lparr>input_path = ''in.obj'',
      output_path = ''out.obj'',
      target_faces = None,
      reduction_ratio = Some (Fin (1 / 2)),
      texture_weight = Fin (3 / 2),
      preserve_boundary = True,
      boundary_weight = Fin 1,
      quality_threshold = Fin (3 / 10),
      planar = False,
      optimal_placement = True,
      verbose = True\<rparr>"

definition example_args :: args where
  "example_args =
     \<lparr>args_input = ''in.obj'',
      args_output = ''out.obj'',
      args_downsample = False,
      args_size = Some (Fin 2),
      args_target_faces = None,
      args_reduction_ratio = None\<rparr>"

section \<open>Vocabulary of the specification\<close>

text \<open>Membership of a float in the half-open interval \<open>[0, 1)\<close>, as the specification
  words the range of \<^verbatim>\<open>reduction_ratio\<close>: a finite value between the bounds.\<close>

definition in_unit_interval :: "pyfloat \<Rightarrow> bool" where
  "in_unit_interval r = (case r of Fin q \<Rightarrow> 0 \<le> q \<and> q < 1 | _ \<Rightarrow> False)"

section \<open>Basic facts\<close>

lemma range_check_iff: "(fl_le (Fin 0) r \<and> fl_lt r (Fin 1)) = in_unit_interval r"
  by (cases r) (simp_all add: in_unit_interval_def)

lemma fl_max_ge: "2 ^ 1023 \<le> fl_max"
proof -
  have "(1 :: rat) \<le> 2 - 1 / 2 ^ 52"
    by simp
  then have "1 * (2 :: rat) ^ 1023 \<le> (2 - 1 / 2 ^ 52) * 2 ^ 1023"
    by (rule mult_right_mono) simp
  then show ?thesis
    by (simp add: fl_max_def)
qed

lemma fl_overflow_in_range: "\<bar>r\<bar> \<le> 2 \<Longrightarrow> fl_overflow r = Fin r"
proof -
  assume r: "\<bar>r\<bar> \<le> 2"
  have "(2 :: rat) \<le> 2 ^ 1023"
    by (rule self_le_power) simp_all
  with fl_max_ge have "2 \<le> fl_max"
    by (rule order_trans [rotated])
  with r show ?thesis
    by (simp add: fl_overflow_def abs_le_iff)
qed

lemma calls_print [simp]: "calls (print m w) = calls w"
  by (simp add: print_def)

lemma calls_print_if [simp]: "calls (print_if b m w) = calls w"
  by (simp add: print_if_def)

lemma calls_call [simp]: "calls (call c w) = calls w @ [c]"
  by (simp add: call_def)

lemma simplify_body_invalid:
  "validate_arguments (target_faces a) (reduction_ratio a) = Inl e \<Longrightarrow>
   simplify_body env a w = (Raise e, w)"
  by (simp add: simplify_body_def)

lemma simplify_textured_mesh_caught:
  "simplify_body env a w = (Raise (Exception c msg), w') \<Longrightarrow>
   simplify_textured_mesh env a w = (Return PyNone, print_if (verbose a) (MsgFailed msg) w')"
  by (simp add: simplify_textured_mesh_def)

section \<open>Argument validation of simplify\_textured\_mesh\<close>

text \<open>
  Claim C2. simplify\_textured\_mesh requires exactly one of target\_faces and
  reduction\_ratio. When both are None or both are given, the body raises a ValueError
  before anything else happens, so the whole call makes no library call (no decimation).
  When exactly one is given, neither of the two checks fires: the validation succeeds,
  unless a given ratio then fails the range check that follows.
\<close>

theorem simplify_requires_exactly_one:
  "((target_faces a = None) = (reduction_ratio a = None) \<longrightarrow>
      (\<exists>msg. simplify_body env a w = (Raise (Exception ValueError msg), w)) \<and>
      calls (snd (simplify_textured_mesh env a w)) = calls w) \<and>
   ((target_faces a = None) \<noteq> (reduction_ratio a = None) \<longrightarrow>
      validate_arguments (target_faces a) (reduction_ratio a) =
        (case reduction_ratio a of
           None \<Rightarrow> Inr ()
         | Some r \<Rightarrow>
             if fl_le (Fin 0) r \<and> fl_lt r (Fin 1) then Inr ()
             else Inl (Exception ValueError ''reduction_ratio must be within [0, 1)'')))"
proof (intro conjI impI)
  assume both: "(target_faces a = None) = (reduction_ratio a = None)"
  then obtain msg where v: "validate_arguments (target_faces a) (reduction_ratio a) =
      Inl (Exception ValueError msg)"
    by (auto simp: validate_arguments_def)
  then have b: "simplify_body env a w = (Raise (Exception ValueError msg), w)"
    by (rule simplify_body_invalid)
  then show "\<exists>msg. simplify_body env a w = (Raise (Exception ValueError msg), w)" ..
  from b show "calls (snd (simplify_textured_mesh env a w)) = calls w"
    by (simp add: simplify_textured_mesh_caught)
next
  assume "(target_faces a = None) \<noteq> (reduction_ratio a = None)"
  then show "validate_arguments (target_faces a) (reduction_ratio a) =
        (case reduction_ratio a of
           None \<Rightarrow> Inr ()
         | Some r \<Rightarrow>
             if fl_le (Fin 0) r \<and> fl_lt r (Fin 1) then Inr ()
             else Inl (Exception ValueError ''reduction_ratio must be within [0, 1)''))"
    by (auto simp: validate_arguments_def split: option.splits)
qed

text \<open>With neither value the example call raises at once; with the ratio alone it
  passes the validation.\<close>

theorem simplify_requires_exactly_one_witness:
  "(\<exists>msg. simplify_body example_env (example_simplify_args\<lparr>reduction_ratio := None\<rparr>) world0 =
      (Raise (Exception ValueError msg), world0)) \<and>
   calls (snd (simplify_textured_mesh example_env
      (example_simplify_args\<lparr>reduction_ratio := None\<rparr>) world0)) = [] \<and>
   validate_arguments (target_faces example_simplify_args)
      (reduction_ratio example_simplify_args) = Inr ()"
  using simplify_requires_exactly_one [of "example_simplify_args\<lparr>reduction_ratio := None\<rparr>"
      example_env world0]
    simplify_requires_exactly_one [of example_simplify_args example_env world0]
  by (simp add: example_simplify_args_def world0_def)

lemma simplify_body_missing_file:
  "validate_arguments (target_faces a) (reduction_ratio a) = Inr () \<Longrightarrow>
   \<not> os_path_exists env (input_path a) \<Longrightarrow>
   simplify_body env a w =
     (Raise (Exception FileNotFoundError (''Input file '' @ input_path a @ '' not found'')), w)"
  by (simp add: simplify_body_def)

lemma validate_arguments_cases:
  "validate_arguments tf rr = Inr () \<or>
   (\<exists>msg. validate_arguments tf rr = Inl (Exception ValueError msg))"
  by (simp add: validate_arguments_def split: option.splits)

text \<open>
  Claim C3, as amended. With reduction\_ratio given and target\_faces absent, the
  validation succeeds exactly when the ratio lies in \<open>[0, 1)\<close> and raises a ValueError
  exactly when it does not (NaN and the infinities are outside). A ratio outside the
  interval makes the body raise a ValueError whatever target\_faces is. (With both values
  given the ValueError of the exclusivity check is raised although the ratio may be in
  range, which is why the claim as stated fails.)
\<close>

theorem range_validation:
  "((validate_arguments None (Some r) = Inr ()) = in_unit_interval r) \<and>
   ((\<exists>msg. validate_arguments None (Some r) = Inl (Exception ValueError msg)) =
      (\<not> in_unit_interval r)) \<and>
   (\<not> in_unit_interval r \<longrightarrow> reduction_ratio a = Some r \<longrightarrow>
      (\<exists>msg. simplify_body env a w = (Raise (Exception ValueError msg), w)))"
proof (intro conjI impI)
  show "(validate_arguments None (Some r) = Inr ()) = in_unit_interval r"
    by (simp add: validate_arguments_def range_check_iff)
  show "(\<exists>msg. validate_arguments None (Some r) = Inl (Exception ValueError msg)) =
      (\<not> in_unit_interval r)"
    by (simp add: validate_arguments_def range_check_iff)
next
  assume out: "\<not> in_unit_interval r" and rr: "reduction_ratio a = Some r"
  have "\<exists>msg. validate_arguments (target_faces a) (Some r) = Inl (Exception ValueError msg)"
    using out by (simp add: validate_arguments_def range_check_iff)
  then obtain msg where
    "validate_arguments (target_faces a) (reduction_ratio a) = Inl (Exception ValueError msg)"
    using rr by auto
  then have "simplify_body env a w = (Raise (Exception ValueError msg), w)"
    by (rule simplify_body_invalid)
  then show "\<exists>msg. simplify_body env a w = (Raise (Exception ValueError msg), w)" ..
qed

text \<open>One half is in range and passes; one is out of range; NaN given to the example
  call raises in the body.\<close>

theorem range_validation_witness:
  "validate_arguments None (Some (Fin (1 / 2))) = Inr () \<and>
   (\<exists>msg. validate_arguments None (Some (Fin 1)) = Inl (Exception ValueError msg)) \<and>
   (\<exists>msg. simplify_body example_env (example_simplify_args\<lparr>reduction_ratio := Some NaN\<rparr>) world0 =
      (Raise (Exception ValueError msg), world0))"
  using range_validation [of "Fin (1 / 2)" example_simplify_args example_env world0]
    range_validation [of "Fin 1" example_simplify_args example_env world0]
    range_validation [of NaN "example_simplify_args\<lparr>reduction_ratio := Some NaN\<rparr>"
      example_env world0]
  by (simp add: in_unit_interval_def)

text \<open>The claim as stated fails: the ratio one half is in range, yet with target\_faces
  also given the validation raises a ValueError.\<close>

theorem range_validation_counterexample:
  "in_unit_interval (Fin (1 / 2)) \<and>
   reduction_ratio (example_simplify_args\<lparr>target_faces := Some 10\<rparr>) = Some (Fin (1 / 2)) \<and>
   simplify_body example_env (example_simplify_args\<lparr>target_faces := Some 10\<rparr>) world0 =
     (Raise (Exception ValueError ''target_faces and reduction_ratio are mutually exclusive''),
      world0)"
  by (simp add: in_unit_interval_def example_simplify_args_def simplify_body_def
      validate_arguments_def)

section \<open>Validation precedes every library call\<close>

text \<open>
  Claim C4, as amended. A call that passes the argument validation and whose input\_path
  does not exist raises FileNotFoundError in the body. A call that fails any of the
  checks (arguments or file existence) raises before the first library call: the whole
  operation leaves the call trace unchanged, so no mesh is loaded, no decimation runs and
  nothing is saved. (A missing file together with invalid arguments raises the ValueError
  of the argument check, not FileNotFoundError, which is why the claim as stated fails.)
\<close>

theorem validation_before_library:
  "(validate_arguments (target_faces a) (reduction_ratio a) = Inr () \<longrightarrow>
    \<not> os_path_exists env (input_path a) \<longrightarrow>
      simplify_body env a w =
        (Raise (Exception FileNotFoundError (''Input file '' @ input_path a @ '' not found'')),
         w)) \<and>
   (validate_arguments (target_faces a) (reduction_ratio a) \<noteq> Inr () \<or>
    \<not> os_path_exists env (input_path a) \<longrightarrow>
      (\<exists>c msg. simplify_body env a w = (Raise (Exception c msg), w)) \<and>
      calls (snd (simplify_textured_mesh env a w)) = calls w)"
proof (intro conjI impI)
  assume "validate_arguments (target_faces a) (reduction_ratio a) = Inr ()"
    and "\<not> os_path_exists env (input_path a)"
  then show "simplify_body env a w =
      (Raise (Exception FileNotFoundError (''Input file '' @ input_path a @ '' not found'')), w)"
    by (rule simplify_body_missing_file)
next
  assume bad: "validate_arguments (target_faces a) (reduction_ratio a) \<noteq> Inr () \<or>
    \<not> os_path_exists env (input_path a)"
  have raised: "\<exists>c msg. simplify_body env a w = (Raise (Exception c msg), w)"
  proof (cases "validate_arguments (target_faces a) (reduction_ratio a) = Inr ()")
    case True
    with bad show ?thesis by (auto dest: simplify_body_missing_file)
  next
    case False
    with validate_arguments_cases [of "target_faces a" "reduction_ratio a"]
    show ?thesis by (auto dest: simplify_body_invalid)
  qed
  then show "\<exists>c msg. simplify_body env a w = (Raise (Exception c msg), w)" .
  from raised show "calls (snd (simplify_textured_mesh env a w)) = calls w"
    by (auto simp: simplify_textured_mesh_caught)
qed

text \<open>The example call on a missing file.\<close>

theorem validation_before_library_witness:
  "simplify_body example_env (example_simplify_args\<lparr>input_path := ''missing.obj''\<rparr>) world0 =
     (Raise (Exception FileNotFoundError ''Input file missing.obj not found''), world0) \<and>
   calls (snd (simplify_textured_mesh example_env
     (example_simplify_args\<lparr>input_path := ''missing.obj''\<rparr>) world0)) = []"
  using validation_before_library [of "example_simplify_args\<lparr>input_path := ''missing.obj''\<rparr>"
      example_env world0]
  by (simp add: example_simplify_args_def example_env_def world0_def validate_arguments_def)

text \<open>The claim as stated fails: the input file is missing, and the exception raised is
  the ValueError of the first argument check.\<close>

theorem validation_before_library_counterexample:
  "\<not> os_path_exists example_env ''missing.obj'' \<and>
   simplify_body example_env
     (example_simplify_args\<lparr>input_path := ''missing.obj'', reduction_ratio := None\<rparr>) world0 =
     (Raise (Exception ValueError ''You must specify either target_faces or reduction_ratio''),
      world0)"
  by (simp add: example_simplify_args_def example_env_def simplify_body_def
      validate_arguments_def)

section \<open>What the engine is asked\<close>

lemma decimate_and_save_calls:
  "\<exists>rest. calls (snd (decimate_and_save env a m tf w)) =
     calls w @ [Decimation (decimation_call_args a tf)] @ rest"
  by (simp add: decimate_and_save_def Let_def split: sum.splits option.splits)

lemma decimate_and_save_Return:
  "decimate_and_save env a m tf w = (Return v, w') \<Longrightarrow>
   calls w' = calls w @ [Decimation (decimation_call_args a tf),
     Save_current_mesh (output_path a) True]"
  by (auto simp: decimate_and_save_def Let_def split: sum.splits option.splits)

lemma simplify_body_Return:
  assumes "simplify_body env a w = (Return v, w')"
  shows "\<exists>m tf. validate_arguments (target_faces a) (reduction_ratio a) = Inr () \<and>
     os_path_exists env (input_path a) \<and>
     ml_load_new_mesh env (input_path a) = Inr m \<and>
     compute_target_faces (fl_round env) (target_faces a) (reduction_ratio a)
       (ml_face_number env m) = Inr tf \<and>
     calls w' = calls w @ [MeshSet_new, Load_new_mesh (input_path a),
       Decimation (decimation_call_args a tf), Save_current_mesh (output_path a) True]"
  using assms
  by (auto simp: simplify_body_def Let_def
      split: sum.splits if_splits option.splits dest!: decimate_and_save_Return)

lemma max_truncate_floor: "max (py_truncate x) 4 = max \<lfloor>x\<rfloor> 4"
proof (cases "0 \<le> x")
  case True
  then show ?thesis by (simp add: py_truncate_def)
next
  case False
  then have "\<lceil>x\<rceil> \<le> 0" and "\<lfloor>x\<rfloor> \<le> 0"
    by (simp_all add: ceiling_le_iff floor_le_iff)
  with False show ?thesis by (simp add: py_truncate_def)
qed

lemma compute_target_faces_ratio:
  "compute_target_faces rnd tf (Some (Fin q)) n =
     Inr (Some (max \<lfloor>rnd (rnd (of_nat n) * rnd (1 - q))\<rfloor> 4))"
  by (simp add: compute_target_faces_def fl_of_int_def max_truncate_floor)

lemma validate_arguments_ok:
  "validate_arguments tf rr = Inr () \<Longrightarrow>
   (rr = None \<and> tf \<noteq> None) \<or> (tf = None \<and> (\<exists>q. rr = Some (Fin q) \<and> 0 \<le> q \<and> q < 1))"
  by (auto simp: validate_arguments_def range_check_iff in_unit_interval_def
      split: if_splits option.splits pyfloat.splits)

lemma simplify_textured_mesh_calls:
  "calls (snd (simplify_textured_mesh env a w)) = calls (snd (simplify_body env a w))"
  by (simp add: simplify_textured_mesh_def split: prod.splits outcome.splits exn.splits)

lemma simplify_body_calls_loaded:
  assumes "validate_arguments (target_faces a) (reduction_ratio a) = Inr ()"
    and "os_path_exists env (input_path a)"
    and "ml_load_new_mesh env (input_path a) = Inr m"
    and "compute_target_faces (fl_round env) (target_faces a) (reduction_ratio a)
       (ml_face_number env m) = Inr tf"
  shows "\<exists>rest. calls (snd (simplify_body env a w)) =
     calls w @ [MeshSet_new, Load_new_mesh (input_path a),
       Decimation (decimation_call_args a tf)] @ rest"
proof -
  obtain w4 where body: "simplify_body env a w = decimate_and_save env a m tf w4"
    and w4: "calls w4 = calls w @ [MeshSet_new, Load_new_mesh (input_path a)]"
    using assms by (simp add: simplify_body_def Let_def split: option.splits)
  from decimate_and_save_calls [of env a m tf w4] obtain rest where
    "calls (snd (decimate_and_save env a m tf w4)) =
       calls w4 @ [Decimation (decimation_call_args a tf)] @ rest" ..
  with body w4 show ?thesis by simp
qed

text \<open>The example call, a reduction by one half of the mesh of 100 faces, run in full.\<close>

lemma example_run:
  "simplify_body example_env example_simplify_args world0 =
     (Return PyNone,
      \<lparr>console = [MsgLoading ''in.obj'', MsgTargetFromRatio (Fin (1 / 2)) 50,
         MsgStartDecimation (Some 50) (Fin (3 / 2)), MsgSaving ''out.obj'',
         MsgDone 100 50 (Fin (1 / 2))],
       calls = [MeshSet_new, Load_new_mesh ''in.obj'',
         Decimation \<lparr>targetfacenum = Some 50, qualitythr = Fin (3 / 10),
           extratcoordw = Fin (3 / 2), preserveboundary = True, boundaryweight = Fin 1,
           optimalplacement = True, planarquadric = False, preservenormal = True\<rparr>,
         Save_current_mesh ''out.obj'' True]\<rparr>)"
  by (simp add: simplify_body_def decimate_and_save_def example_env_def
      example_simplify_args_def world0_def validate_arguments_def compute_target_faces_def
      decimation_call_args_def fl_of_int_def py_truncate_def py_truediv_def basename_def
      print_if_def print_def call_def Let_def)

text \<open>
  Claim C5, as amended. On every successful call (the body returns) the library calls
  are, in order, the creation of the mesh set, the load, one decimation and the save, and
  the decimation receives texture\_weight, boundary\_weight, quality\_threshold,
  preserve\_boundary, optimal\_placement and planar of the caller unchanged as
  extratcoordw, boundaryweight, qualitythr, preserveboundary, optimalplacement and
  planarquadric. target\_faces is forwarded unchanged as targetfacenum when the caller gave
  it (reduction\_ratio absent); when the caller gave reduction\_ratio \<open>q\<close>, target\_faces is
  absent and targetfacenum is the count computed from the ratio and the \<open>n\<close> faces of the
  loaded mesh, \<open>max (floor (n * (1 - q))) 4\<close> in float arithmetic.
\<close>

theorem parameters_forwarded:
  assumes "simplify_body env a w = (Return v, w')"
  shows "\<exists>d m. ml_load_new_mesh env (input_path a) = Inr m \<and>
     calls w' = calls w @ [MeshSet_new, Load_new_mesh (input_path a), Decimation d,
       Save_current_mesh (output_path a) True] \<and>
     extratcoordw d = texture_weight a \<and>
     boundaryweight d = boundary_weight a \<and>
     qualitythr d = quality_threshold a \<and>
     preserveboundary d = preserve_boundary a \<and>
     optimalplacement d = optimal_placement a \<and>
     planarquadric d = planar a \<and>
     (reduction_ratio a = None \<longrightarrow> target_faces a \<noteq> None \<and> targetfacenum d = target_faces a) \<and>
     (reduction_ratio a \<noteq> None \<longrightarrow>
        target_faces a = None \<and>
        (\<exists>q. reduction_ratio a = Some (Fin q) \<and>
           targetfacenum d =
             Some (max \<lfloor>fl_round env (fl_round env (of_nat (ml_face_number env m)) *
                            fl_round env (1 - q))\<rfloor> 4)))"
proof -
  from simplify_body_Return [OF assms] obtain m tf where
    ok: "validate_arguments (target_faces a) (reduction_ratio a) = Inr ()" and
    ld: "ml_load_new_mesh env (input_path a) = Inr m" and
    tf: "compute_target_faces (fl_round env) (target_faces a) (reduction_ratio a)
       (ml_face_number env m) = Inr tf" and
    cs: "calls w' = calls w @ [MeshSet_new, Load_new_mesh (input_path a),
       Decimation (decimation_call_args a tf), Save_current_mesh (output_path a) True]"
    by blast
  have given: "reduction_ratio a = None \<longrightarrow> target_faces a \<noteq> None \<and> tf = target_faces a"
    using validate_arguments_ok [OF ok] tf by (auto simp: compute_target_faces_def)
  have computed: "reduction_ratio a \<noteq> None \<longrightarrow>
      target_faces a = None \<and>
      (\<exists>q. reduction_ratio a = Some (Fin q) \<and>
         tf = Some (max \<lfloor>fl_round env (fl_round env (of_nat (ml_face_number env m)) *
                          fl_round env (1 - q))\<rfloor> 4))"
    using validate_arguments_ok [OF ok] tf by (auto simp: compute_target_faces_ratio)
  from ld cs given computed show ?thesis
    by (intro exI [of _ "decimation_call_args a tf"] exI [of _ m])
      (simp add: decimation_call_args_def)
qed

text \<open>The example call is successful, so the theorem applies to it.\<close>

theorem parameters_forwarded_witness:
  "\<exists>d. calls (snd (simplify_body example_env example_simplify_args world0)) =
       [MeshSet_new, Load_new_mesh ''in.obj'', Decimation d, Save_current_mesh ''out.obj'' True] \<and>
     extratcoordw d = Fin (3 / 2) \<and> boundaryweight d = Fin 1 \<and> qualitythr d = Fin (3 / 10) \<and>
     preserveboundary d \<and> optimalplacement d \<and> \<not> planarquadric d \<and>
     targetfacenum d = Some 50"
  using parameters_forwarded [OF example_run]
  unfolding example_run
  by (auto simp: example_simplify_args_def example_env_def world0_def)

text \<open>The claim as stated fails: the example call succeeds, the caller's target\_faces is
  None, and the engine is asked for 50 faces.\<close>

theorem parameters_forwarded_counterexample:
  "target_faces example_simplify_args = None \<and>
   fst (simplify_body example_env example_simplify_args world0) = Return PyNone \<and>
   calls (snd (simplify_body example_env example_simplify_args world0)) =
     [MeshSet_new, Load_new_mesh ''in.obj'',
      Decimation \<lparr>targetfacenum = Some 50, qualitythr = Fin (3 / 10),
        extratcoordw = Fin (3 / 2), preserveboundary = True, boundaryweight = Fin 1,
        optimalplacement = True, planarquadric = False, preservenormal = True\<rparr>,
      Save_current_mesh ''out.obj'' True]"
  by (simp add: example_run) (simp add: example_simplify_args_def)

text \<open>
  Claim C8. Called with a reduction\_ratio \<open>q\<close> in \<open>[0, 1)\<close> and no target\_faces, on an
  existing file that loads as a mesh of \<open>n\<close> faces, the operation calls the engine with
  targetfacenum exactly \<open>max (floor (n * (1 - q))) 4\<close>, the product and the difference being
  those of float arithmetic (each rounded by the platform's rounding): the floor of
  \<^verbatim>\<open>int()\<close>, not a rounding to the nearest integer, and so a request of never fewer
  than 4 faces.
\<close>

theorem target_faces_from_ratio:
  assumes "target_faces a = None" and "reduction_ratio a = Some (Fin q)"
    and "0 \<le> q" and "q < 1"
    and "os_path_exists env (input_path a)"
    and "ml_load_new_mesh env (input_path a) = Inr m"
  shows "\<exists>d rest. calls (snd (simplify_textured_mesh env a w)) =
       calls w @ [MeshSet_new, Load_new_mesh (input_path a), Decimation d] @ rest \<and>
     targetfacenum d =
       Some (max \<lfloor>fl_round env (fl_round env (of_nat (ml_face_number env m)) *
                      fl_round env (1 - q))\<rfloor> 4) \<and>
     (\<exists>t. targetfacenum d = Some t \<and> 4 \<le> t)"
proof -
  let ?t = "max \<lfloor>fl_round env (fl_round env (of_nat (ml_face_number env m)) *
                     fl_round env (1 - q))\<rfloor> 4"
  have ok: "validate_arguments (target_faces a) (reduction_ratio a) = Inr ()"
    using assms(1-4) by (simp add: validate_arguments_def)
  have tf: "compute_target_faces (fl_round env) (target_faces a) (reduction_ratio a)
       (ml_face_number env m) = Inr (Some ?t)"
    using assms(2) by (simp add: compute_target_faces_ratio)
  from simplify_body_calls_loaded [OF ok assms(5) assms(6) tf] obtain rest where
    cs: "calls (snd (simplify_textured_mesh env a w)) =
       calls w @ [MeshSet_new, Load_new_mesh (input_path a),
         Decimation (decimation_call_args a (Some ?t))] @ rest"
    by (auto simp: simplify_textured_mesh_calls)
  have fld: "targetfacenum (decimation_call_args a (Some ?t)) = Some ?t"
    by (simp add: decimation_call_args_def)
  have "4 \<le> ?t" by simp
  with cs fld show ?thesis by blast
qed

text \<open>A ratio of 0.093 on the mesh of 100 faces: 90.7 is truncated to 90, not rounded
  to 91.\<close>

theorem target_faces_from_ratio_witness:
  "\<exists>d rest. calls (snd (simplify_textured_mesh example_env
       (example_simplify_args\<lparr>reduction_ratio := Some (Fin (93 / 1000))\<rparr>) world0)) =
       [MeshSet_new, Load_new_mesh ''in.obj'', Decimation d] @ rest \<and>
     targetfacenum d = Some 90"
proof -
  have f: "\<lfloor>(907 :: rat) / 10\<rfloor> = 90"
    by (rule floor_unique) simp_all
  show ?thesis
    using target_faces_from_ratio [of "example_simplify_args\<lparr>reduction_ratio := Some (Fin (93 / 1000))\<rparr>"
        "93 / 1000" example_env 100 world0]
    by (simp add: example_simplify_args_def example_env_def world0_def f) blast
qed

section \<open>Exceptions and exit codes\<close>

lemma simplify_textured_mesh_no_Exception:
  "fst (simplify_textured_mesh env a w) \<noteq> Raise (Exception c msg)"
  by (simp add: simplify_textured_mesh_def split: prod.splits outcome.splits exn.splits)

lemma dowsample_mesh_no_Exception:
  "truthy_int (args_target_faces b) \<or> truthy_float (args_reduction_ratio b) \<Longrightarrow>
   fst (dowsample_mesh_with p env b w) \<noteq> Raise (Exception c msg)"
  by (auto simp: dowsample_mesh_with_def split: prod.splits outcome.splits exn.splits)

lemma dowsample_mesh_caught:
  "truthy_int (args_target_faces b) \<or> truthy_float (args_reduction_ratio b) \<Longrightarrow>
   dowsample_body env b w = (Raise (Exception c msg), w') \<Longrightarrow>
   dowsample_mesh_with p env b w =
     (Return (PyInt 1), print (MsgTraceback (Exception c msg)) (print (MsgError msg) w'))"
  by (auto simp: dowsample_mesh_with_def)

text \<open>Two failing runs in the example world: the input file is missing, and in the
  command-line run the output file, never written, cannot be displayed either.\<close>

lemma example_missing_body:
  "simplify_body example_env (example_simplify_args\<lparr>input_path := ''missing.obj''\<rparr>) world0 =
     (Raise (Exception FileNotFoundError ''Input file missing.obj not found''), world0)"
  by (simp add: simplify_body_def example_simplify_args_def example_env_def
      validate_arguments_def)

lemma example_dowsample_body:
  "dowsample_body example_env
     (example_args\<lparr>args_input := ''missing.obj'', args_output := ''nowhere.obj'',
        args_target_faces := Some 10\<rparr>) world0 =
     (Raise (Exception LibraryError ''cannot load file''),
      \<lparr>console = [MsgFailed ''Input file missing.obj not found''],
       calls = [Trimesh_load ''nowhere.obj'']\<rparr>)"
  by (simp add: dowsample_body_def simplify_textured_mesh_def simplify_body_def
      simplify_call_args_def display_mesh_def example_args_def example_env_def world0_def
      validate_arguments_def print_if_def print_def call_def)

text \<open>
  Claim C1, as amended. simplify\_textured\_mesh never lets an exception of class
  Exception reach its caller, and neither does dowsample\_mesh once its argument test
  (line 160) has let the call through, whether the script or an importing module calls it.
  An Exception raised in the body of simplify\_textured\_mesh is caught and the call
  returns None; the message \<^verbatim>\<open>Failed: ...\<close> is printed only when verbose is set. In
  dowsample\_mesh an Exception raised in the body of the \<^verbatim>\<open>try\<close> is caught,
  \<^verbatim>\<open>Error: ...\<close> and the traceback are printed, and 1 is returned. The theorem says
  nothing of resize\_mesh, nor of a call that the argument test turns away.
\<close>

theorem exceptions_caught:
  "(\<forall>c msg. fst (simplify_textured_mesh env a w) \<noteq> Raise (Exception c msg)) \<and>
   (\<forall>p c msg. truthy_int (args_target_faces b) \<or> truthy_float (args_reduction_ratio b) \<longrightarrow>
      fst (dowsample_mesh_with p env b w) \<noteq> Raise (Exception c msg)) \<and>
   (\<forall>c msg w'. simplify_body env a w = (Raise (Exception c msg), w') \<longrightarrow>
      simplify_textured_mesh env a w =
        (Return PyNone, if verbose a then print (MsgFailed msg) w' else w')) \<and>
   (\<forall>p c msg w'. truthy_int (args_target_faces b) \<or> truthy_float (args_reduction_ratio b) \<longrightarrow>
      dowsample_body env b w = (Raise (Exception c msg), w') \<longrightarrow>
      dowsample_mesh_with p env b w =
        (Return (PyInt 1), print (MsgTraceback (Exception c msg)) (print (MsgError msg) w')))"
proof (intro conjI allI impI)
  fix c msg
  show "fst (simplify_textured_mesh env a w) \<noteq> Raise (Exception c msg)"
    by (rule simplify_textured_mesh_no_Exception)
next
  fix p c msg
  assume "truthy_int (args_target_faces b) \<or> truthy_float (args_reduction_ratio b)"
  then show "fst (dowsample_mesh_with p env b w) \<noteq> Raise (Exception c msg)"
    by (rule dowsample_mesh_no_Exception)
next
  fix c msg w'
  assume "simplify_body env a w = (Raise (Exception c msg), w')"
  then show "simplify_textured_mesh env a w =
      (Return PyNone, if verbose a then print (MsgFailed msg) w' else w')"
    by (simp add: simplify_textured_mesh_caught print_if_def)
next
  fix p c msg w'
  assume "truthy_int (args_target_faces b) \<or> truthy_float (args_reduction_ratio b)"
    and "dowsample_body env b w = (Raise (Exception c msg), w')"
  then show "dowsample_mesh_with p env b w =
      (Return (PyInt 1), print (MsgTraceback (Exception c msg)) (print (MsgError msg) w'))"
    by (rule dowsample_mesh_caught)
qed

text \<open>Both failing runs: the failure is reported on the console and nothing is raised.\<close>

theorem exceptions_caught_witness:
  "simplify_textured_mesh example_env (example_simplify_args\<lparr>input_path := ''missing.obj''\<rparr>)
     world0 =
     (Return PyNone, \<lparr>console = [MsgFailed ''Input file missing.obj not found''], calls = []\<rparr>) \<and>
   dowsample_mesh_with False example_env
     (example_args\<lparr>args_input := ''missing.obj'', args_output := ''nowhere.obj'',
        args_target_faces := Some 10\<rparr>) world0 =
     (Return (PyInt 1),
      \<lparr>console = [MsgFailed ''Input file missing.obj not found'', MsgError ''cannot load file'',
         MsgTraceback (Exception LibraryError ''cannot load file'')],
       calls = [Trimesh_load ''nowhere.obj'']\<rparr>)"
  using exceptions_caught [of example_env "example_simplify_args\<lparr>input_path := ''missing.obj''\<rparr>"
      world0 "example_args\<lparr>args_input := ''missing.obj'', args_output := ''nowhere.obj'',
        args_target_faces := Some 10\<rparr>"]
  unfolding example_missing_body example_dowsample_body
  by (simp add: example_simplify_args_def example_args_def world0_def print_def)

text \<open>The claim as stated fails twice. resize\_mesh on a file that cannot be loaded
  raises the library's exception to its caller and prints nothing; and
  simplify\_textured\_mesh with verbose unset catches the FileNotFoundError of a missing
  input and prints nothing.\<close>

theorem exceptions_caught_counterexample:
  "resize_mesh example_env (example_args\<lparr>args_input := ''missing.obj''\<rparr>) world0 =
     (Raise (Exception LibraryError ''cannot load file''),
      \<lparr>console = [], calls = [Trimesh_load ''missing.obj'']\<rparr>) \<and>
   simplify_textured_mesh example_env
     (example_simplify_args\<lparr>input_path := ''missing.obj'', verbose := False\<rparr>) world0 =
     (Return PyNone, world0)"
  by (simp add: resize_mesh_def simplify_textured_mesh_def simplify_body_def
      example_args_def example_simplify_args_def example_env_def world0_def
      validate_arguments_def print_if_def call_def)

text \<open>Two successful runs in the example world.\<close>

lemma example_dowsample_ok:
  "fst (dowsample_body example_env (example_args\<lparr>args_reduction_ratio := Some (Fin (1 / 2))\<rparr>)
     world0) = Return PyNone"
  by (simp add: dowsample_body_def simplify_textured_mesh_def simplify_call_args_def
      example_args_def display_mesh_def show_scene_def example_env_def
      simplify_body_def decimate_and_save_def validate_arguments_def compute_target_faces_def
      decimation_call_args_def fl_of_int_def py_truncate_def py_truediv_def Let_def)

lemma example_resize_ok: "fst (resize_mesh example_env example_args world0) = Return PyNone"
  by (simp add: resize_mesh_def example_args_def example_env_def resize_scale_def
      box_scale_def display_mesh_def show_scene_def fl_min_def fl_overflow_in_range Let_def)

text \<open>
  Claim C6. Once the argument test has let the call through, dowsample\_mesh returns 0
  exactly when the body of its \<^verbatim>\<open>try\<close> completes, and 1 exactly when that body
  raises an exception that the handler catches. resize\_mesh has no status value: on every
  input it either returns None or leaves through an exception, and never returns an int.
\<close>

theorem exit_codes:
  "(truthy_int (args_target_faces a) \<or> truthy_float (args_reduction_ratio a) \<longrightarrow>
      (fst (dowsample_mesh env a w) = Return (PyInt 0)) =
        (\<exists>v w'. dowsample_body env a w = (Return v, w')) \<and>
      (fst (dowsample_mesh env a w) = Return (PyInt 1)) =
        (\<exists>c msg w'. dowsample_body env a w = (Raise (Exception c msg), w'))) \<and>
   (fst (resize_mesh env a w) = Return PyNone \<or> (\<exists>e. fst (resize_mesh env a w) = Raise e)) \<and>
   (\<forall>n. fst (resize_mesh env a w) \<noteq> Return (PyInt n))"
proof (intro conjI impI allI)
  assume gate: "truthy_int (args_target_faces a) \<or> truthy_float (args_reduction_ratio a)"
  then show "(fst (dowsample_mesh env a w) = Return (PyInt 0)) =
      (\<exists>v w'. dowsample_body env a w = (Return v, w'))"
    by (auto simp: dowsample_mesh_def dowsample_mesh_with_def split: prod.splits outcome.splits exn.splits)
  from gate show "(fst (dowsample_mesh env a w) = Return (PyInt 1)) =
      (\<exists>c msg w'. dowsample_body env a w = (Raise (Exception c msg), w'))"
    by (auto simp: dowsample_mesh_def dowsample_mesh_with_def split: prod.splits outcome.splits exn.splits)
next
  show r: "fst (resize_mesh env a w) = Return PyNone \<or> (\<exists>e. fst (resize_mesh env a w) = Raise e)"
    by (simp add: resize_mesh_def Let_def
        split: sum.splits prod.splits outcome.splits option.splits)
  fix n
  from r show "fst (resize_mesh env a w) \<noteq> Return (PyInt n)"
    by auto
qed

text \<open>A successful downsample run returns 0, the failing one 1, the resize run None.\<close>

theorem exit_codes_witness:
  "fst (dowsample_mesh example_env (example_args\<lparr>args_reduction_ratio := Some (Fin (1 / 2))\<rparr>)
     world0) = Return (PyInt 0) \<and>
   fst (dowsample_mesh example_env
     (example_args\<lparr>args_input := ''missing.obj'', args_output := ''nowhere.obj'',
        args_target_faces := Some 10\<rparr>) world0) = Return (PyInt 1) \<and>
   fst (resize_mesh example_env example_args world0) = Return PyNone"
proof -
  have "\<exists>v w'. dowsample_body example_env
      (example_args\<lparr>args_reduction_ratio := Some (Fin (1 / 2))\<rparr>) world0 = (Return v, w')"
    using example_dowsample_ok by (metis prod.collapse)
  then have zero: "fst (dowsample_mesh example_env
      (example_args\<lparr>args_reduction_ratio := Some (Fin (1 / 2))\<rparr>) world0) = Return (PyInt 0)"
    using exit_codes [of "example_args\<lparr>args_reduction_ratio := Some (Fin (1 / 2))\<rparr>"
        example_env world0]
    by (simp add: example_args_def)
  have one: "fst (dowsample_mesh example_env
      (example_args\<lparr>args_input := ''missing.obj'', args_output := ''nowhere.obj'',
         args_target_faces := Some 10\<rparr>) world0) = Return (PyInt 1)"
    using exit_codes [of "example_args\<lparr>args_input := ''missing.obj'',
        args_output := ''nowhere.obj'', args_target_faces := Some 10\<rparr>" example_env world0]
      example_dowsample_body
    by (simp add: example_args_def)
  from zero one example_resize_ok show ?thesis by simp
qed

text \<open>
  Claim C10. dowsample\_mesh tests the truth value of its two arguments, not their
  presence: when target\_faces is absent or 0 and reduction\_ratio is absent or 0.0, the
  call ends in the parser error (exit status 2), exactly as when neither is given, although
  the validation of simplify\_textured\_mesh accepts the ratio 0.0 given alone.
\<close>

theorem truthiness_gate:
  assumes "args_target_faces a = None \<or> args_target_faces a = Some 0"
    and "args_reduction_ratio a = None \<or> args_reduction_ratio a = Some (Fin 0)"
  shows "dowsample_mesh env a w =
       (Raise (SystemExit 2),
        print (MsgParserError ''You must specify either --target-faces or --reduction-ratio'') w) \<and>
     dowsample_mesh env a w =
       dowsample_mesh env (a\<lparr>args_target_faces := None, args_reduction_ratio := None\<rparr>) w \<and>
     validate_arguments None (Some (Fin 0)) = Inr ()"
  using assms by (auto simp: dowsample_mesh_def dowsample_mesh_with_def parser_error_def validate_arguments_def)

text \<open>\<^verbatim>\<open>--reduction-ratio 0.0\<close> alone and \<^verbatim>\<open>--target-faces 0\<close> alone are both
  turned away.\<close>

theorem truthiness_gate_witness:
  "dowsample_mesh example_env (example_args\<lparr>args_reduction_ratio := Some (Fin 0)\<rparr>) world0 =
     (Raise (SystemExit 2),
      \<lparr>console = [MsgParserError ''You must specify either --target-faces or --reduction-ratio''],
       calls = []\<rparr>) \<and>
   dowsample_mesh example_env (example_args\<lparr>args_target_faces := Some 0\<rparr>) world0 =
     (Raise (SystemExit 2),
      \<lparr>console = [MsgParserError ''You must specify either --target-faces or --reduction-ratio''],
       calls = []\<rparr>)"
  using truthiness_gate [of "example_args\<lparr>args_reduction_ratio := Some (Fin 0)\<rparr>" example_env world0]
    truthiness_gate [of "example_args\<lparr>args_target_faces := Some 0\<rparr>" example_env world0]
  by (simp add: example_args_def world0_def print_def)

section \<open>resize\_mesh: the scale factor\<close>

lemma calls_print_info [simp]: "calls (print_info env title mesh w) = calls w"
  by (simp add: print_info_def)

lemma resize_mesh_loaded_calls:
  assumes "tm_load env (args_input a) = Inr mesh"
  shows "\<exists>rest. calls (snd (resize_mesh env a w)) =
     calls w @ [Trimesh_load (args_input a),
       Apply_scale (resize_scale (fl_round env) (args_size a)
         (extents_min (tm_extents env mesh)))] @ rest"
  using assms
  by (simp add: resize_mesh_def Let_def display_mesh_def show_scene_def
      split: sum.splits option.splits)

lemma resize_mesh_exported:
  assumes "tm_load env (args_input a) = Inr mesh"
    and "tm_apply_scale env
       (resize_scale (fl_round env) (args_size a) (extents_min (tm_extents env mesh))) mesh =
       Inr mesh'"
    and "tm_show env mesh' True = None"
  shows "calls (snd (resize_mesh env a w)) =
     calls w @ [Trimesh_load (args_input a),
       Apply_scale (resize_scale (fl_round env) (args_size a)
         (extents_min (tm_extents env mesh))),
       Scene_show True, Export (args_output a) mesh']"
  using assms
  by (simp add: resize_mesh_def Let_def display_mesh_def show_scene_def
      split: option.splits)

text \<open>
  Claim C9. When \<^verbatim>\<open>args.size\<close> is absent or 0.0 and the input loads, the scale factor
  is 1.0 and that is the factor given to \<^verbatim>\<open>apply_scale\<close>; no rescaling to zero takes
  place. If the library's scaling by 1.0 leaves the mesh as it is and the display
  succeeds, the mesh exported is the mesh loaded.
\<close>

theorem zero_size_no_rescale:
  assumes "args_size a = None \<or> args_size a = Some (Fin 0)"
    and "tm_load env (args_input a) = Inr mesh"
  shows "resize_scale (fl_round env) (args_size a) (extents_min (tm_extents env mesh)) = Fin 1 \<and>
     (\<exists>rest. calls (snd (resize_mesh env a w)) =
        calls w @ [Trimesh_load (args_input a), Apply_scale (Fin 1)] @ rest) \<and>
     (tm_apply_scale env (Fin 1) mesh = Inr mesh \<longrightarrow> tm_show env mesh True = None \<longrightarrow>
        calls (snd (resize_mesh env a w)) =
          calls w @ [Trimesh_load (args_input a), Apply_scale (Fin 1), Scene_show True,
            Export (args_output a) mesh])"
proof -
  have one: "resize_scale (fl_round env) (args_size a) (extents_min (tm_extents env mesh)) = Fin 1"
    using assms(1) by (auto simp: resize_scale_def)
  show ?thesis
  proof (intro conjI impI)
    show "resize_scale (fl_round env) (args_size a) (extents_min (tm_extents env mesh)) = Fin 1"
      by (rule one)
    from resize_mesh_loaded_calls [OF assms(2), of w]
    show "\<exists>rest. calls (snd (resize_mesh env a w)) =
        calls w @ [Trimesh_load (args_input a), Apply_scale (Fin 1)] @ rest"
      by (simp add: one)
  next
    assume "tm_apply_scale env (Fin 1) mesh = Inr mesh" and "tm_show env mesh True = None"
    with resize_mesh_exported [OF assms(2), of mesh w]
    show "calls (snd (resize_mesh env a w)) =
        calls w @ [Trimesh_load (args_input a), Apply_scale (Fin 1), Scene_show True,
          Export (args_output a) mesh]"
      by (simp add: one)
  qed
qed

text \<open>\<^verbatim>\<open>--size 0.0\<close> on the example box: the box is exported with its extents 1, 2, 3.\<close>

theorem zero_size_no_rescale_witness:
  "calls (snd (resize_mesh example_env (example_args\<lparr>args_size := Some (Fin 0)\<rparr>) world0)) =
     [Trimesh_load ''in.obj'', Apply_scale (Fin 1), Scene_show True, Export ''out.obj'' (1, 2, 3)]"
  using zero_size_no_rescale [of "example_args\<lparr>args_size := Some (Fin 0)\<rparr>" example_env
      "(1, 2, 3)" world0]
  by (simp add: example_args_def example_env_def world0_def box_scale_def)




end
